theory Spec2Isabelle
  imports Complex_Main
begin

section \<open>Python values, exceptions and results\<close>

text \<open>
  The exceptions the two source files can raise or receive from their collaborators.
  \<open>KeyboardInterrupt\<close> and \<open>SystemExit\<close> derive from \<open>BaseException\<close> only; every
  other one derives from \<open>Exception\<close>. A bare \<open>except:\<close> catches all of them, an
  \<open>except Exception\<close> only the second group.
\<close>

datatype exc =
    TypeError | IndexError | ValueError | NameError | ZeroDivisionError
  | AttributeError | KeyError | FileNotFoundError | OtherError string
  | KeyboardInterrupt | SystemExit

fun is_Exception :: "exc \<Rightarrow> bool" where
  "is_Exception KeyboardInterrupt = False"
| "is_Exception SystemExit = False"
| "is_Exception _ = True"

text \<open>What a method of the widget returns: \<open>None\<close> (falling off the end) or an integer.\<close>

datatype pyret = PyNone | PyInt int

text \<open>A list comprehension whose element expression may raise stops at the first raise.\<close>

fun map_exc :: "('a \<Rightarrow> exc + 'b) \<Rightarrow> 'a list \<Rightarrow> exc + 'b list" where
  "map_exc f [] = Inr []"
| "map_exc f (x # xs) =
     (case f x of
        Inl e \<Rightarrow> Inl e
      | Inr y \<Rightarrow> (case map_exc f xs of Inl e \<Rightarrow> Inl e | Inr ys \<Rightarrow> Inr (y # ys)))"

section \<open>Python floats\<close>

text \<open>
  A Python float is an IEEE 754 binary64 number: a real with 53 significant bits, an
  infinity or a NaN. \<open>Finite x\<close> stands for the float of value \<open>x\<close>; the sign of a zero is
  not kept, which no operation below can observe (a zero divisor raises whatever its
  sign, and comparisons treat both zeros alike).
\<close>

datatype double = Finite real | PInf | NInf | NaN

text \<open>Rounding to the nearest integer, a tie going to the even one.\<close>

definition round_half_even :: "real \<Rightarrow> int" where
  "round_half_even y =
     (let f = \<lfloor>y\<rfloor>; r = y - of_int f in
      if r < 1 / 2 then f else if 1 / 2 < r then f + 1 else if even f then f else f + 1)"

text \<open>
  The float nearest to a real: the real is rounded at the 53rd significant bit (at the
  bit of weight \<open>2^-1074\<close> in the subnormal range), a tie going to the even significand; a
  result of magnitude \<open>2^1024\<close> or more is an infinity.
\<close>

definition rnd :: "real \<Rightarrow> double" where
  "rnd x =
     (if x = 0 then Finite 0
      else
        let e = max \<lfloor>log 2 \<bar>x\<bar>\<rfloor> (- 1022);
            q = 2 powi (e - 52);
            y = of_int (round_half_even (x / q)) * q
        in if 2 powi 1024 \<le> \<bar>y\<bar> then (if 0 < x then PInf else NInf) else Finite y)"






fun d_less :: "double \<Rightarrow> double \<Rightarrow> bool" where
  "d_less (Finite x) (Finite y) = (x < y)"
| "d_less NaN _ = False"
| "d_less _ NaN = False"
| "d_less _ NInf = False"
| "d_less NInf _ = True"
| "d_less PInf _ = False"
| "d_less _ PInf = True"




text \<open>Python's \<open>a / b\<close> on numbers, with floats read as reals.\<close>

definition py_truediv :: "real \<Rightarrow> real \<Rightarrow> exc + real" where
  "py_truediv a b = (if b = 0 then Inl ZeroDivisionError else Inr (a / b))"

text \<open>
  The arithmetic a computation on numbers runs in: the value of a decimal literal, the
  conversion of an \<open>int\<close> operand, and the four operations. \<open>double_arith\<close> is the
  arithmetic of Python floats. \<open>exact_arith\<close> reads floats as reals and rounds nothing;
  the widget below computes in it, as none of its properties stated here depends on
  rounding.
\<close>

record 'f arith =
  ar_literal :: "real \<Rightarrow> 'f"
  ar_int :: "int \<Rightarrow> exc + 'f"
  ar_add :: "'f \<Rightarrow> 'f \<Rightarrow> 'f"
  ar_sub :: "'f \<Rightarrow> 'f \<Rightarrow> 'f"
  ar_mul :: "'f \<Rightarrow> 'f \<Rightarrow> 'f"
  ar_truediv :: "'f \<Rightarrow> 'f \<Rightarrow> exc + 'f"

definition exact_arith :: "real arith" where
  "exact_arith =
     \<lparr> ar_literal = (\<lambda>x. x), ar_int = (\<lambda>i. Inr (of_int i)),
       ar_add = (+), ar_sub = (-), ar_mul = (*), ar_truediv = py_truediv \<rparr>"


lemma exact_arith_simps [simp]:
  "ar_literal exact_arith x = x" "ar_int exact_arith i = Inr (of_int i)"
  "ar_add exact_arith = (+)" "ar_sub exact_arith = (-)" "ar_mul exact_arith = (*)"
  "ar_truediv exact_arith = py_truediv"
  by (simp_all add: exact_arith_def)

section \<open>The range sliders\<close>

text \<open>
  \<open>ValueSlider\<close>: the attributes \<open>multiplier\<close>, \<open>_ymin\<close>, \<open>_ymax\<close> and the trait
  \<open>value\<close> of the underlying float range slider.
\<close>

record 'f ValueSlider =
  vs_multiplier :: 'f
  vs_value :: "'f list"
  vs_ymin :: 'f
  vs_ymax :: 'f

text \<open>
  \<open>ValueSlider.__init__(description, initial_value, yrange, multiplier)\<close>; the value is
  \<open>[multiplier * (yrange[0] + 0.01 * x * (yrange[1] - yrange[0])) for x in initial_value]\<close>,
  where \<open>0.01 * x * d\<close> is \<open>(0.01 * x) * d\<close>.
\<close>

definition ValueSlider_init ::
  "'f arith \<Rightarrow> 'f list \<Rightarrow> 'f \<times> 'f \<Rightarrow> 'f \<Rightarrow> 'f ValueSlider" where
  "ValueSlider_init ar initial_value yrange m =
     \<lparr> vs_multiplier = m,
       vs_value =
         map (\<lambda>x. ar_mul ar m
                (ar_add ar (fst yrange)
                   (ar_mul ar (ar_mul ar (ar_literal ar (1 / 100)) x)
                      (ar_sub ar (snd yrange) (fst yrange)))))
           initial_value,
       vs_ymin = ar_mul ar (fst yrange) m,
       vs_ymax = ar_mul ar (snd yrange) m \<rparr>"


text \<open>The setter \<open>ValueSlider.range = (lo, hi)\<close>.\<close>

definition ValueSlider_set_range :: "'f \<times> 'f \<Rightarrow> 'f ValueSlider \<Rightarrow> 'f ValueSlider" where
  "ValueSlider_set_range val vs = vs\<lparr>vs_ymin := fst val, vs_ymax := snd val\<rparr>"





section \<open>Python containers\<close>

text \<open>
  Indexing a list or a one-dimensional array: a negative index counts from the end, an
  index outside the bounds raises \<open>IndexError\<close>.
\<close>

definition py_get :: "'a list \<Rightarrow> int \<Rightarrow> exc + 'a" where
  "py_get xs i =
     (let len = int (length xs) in
      if 0 \<le> i \<and> i < len then Inr (xs ! nat i)
      else if - len \<le> i \<and> i < 0 then Inr (xs ! nat (len + i))
      else Inl IndexError)"

text \<open>Item assignment \<open>xs[i] = v\<close>, with the same index rules.\<close>

definition py_set :: "'a list \<Rightarrow> int \<Rightarrow> 'a \<Rightarrow> exc + 'a list" where
  "py_set xs i v =
     (let len = int (length xs) in
      if 0 \<le> i \<and> i < len then Inr (xs[nat i := v])
      else if - len \<le> i \<and> i < 0 then Inr (xs[nat (len + i) := v])
      else Inl IndexError)"

text \<open>The slice \<open>xs[a:b]\<close>: bounds are clipped, never an error.\<close>

definition py_clip :: "nat \<Rightarrow> int \<Rightarrow> nat" where
  "py_clip len i = (if i < 0 then nat (max 0 (int len + i)) else min len (nat i))"

definition py_slice :: "'a list \<Rightarrow> int \<Rightarrow> int \<Rightarrow> 'a list" where
  "py_slice xs a b = drop (py_clip (length xs) a) (take (py_clip (length xs) b) xs)"

text \<open>The membership test \<open>sub in s\<close> on strings: \<open>sub\<close> occurs in \<open>s\<close> as a substring.\<close>

fun starts_with :: "string \<Rightarrow> string \<Rightarrow> bool" where
  "starts_with [] s = True"
| "starts_with (c # cs) [] = False"
| "starts_with (c # cs) (d # ds) = (c = d \<and> starts_with cs ds)"

fun py_in_str :: "string \<Rightarrow> string \<Rightarrow> bool" where
  "py_in_str sub [] = (sub = [])"
| "py_in_str sub (c # cs) = (starts_with sub (c # cs) \<or> py_in_str sub cs)"


text \<open>
  \<open>int(s)\<close> on a string of decimal digits; any other string (the empty one too) raises
  \<open>ValueError\<close>. Signs, blanks and underscores, which \<open>int\<close> also accepts, do not occur
  in the strings the widget converts.
\<close>

definition digit_val :: "char \<Rightarrow> int option" where
  "digit_val c = map_of (zip ''0123456789'' [0, 1, 2, 3, 4, 5, 6, 7, 8, 9]) c"

fun py_int_digits :: "int \<Rightarrow> string \<Rightarrow> exc + int" where
  "py_int_digits acc [] = Inr acc"
| "py_int_digits acc (c # cs) =
     (case digit_val c of
        None \<Rightarrow> Inl ValueError
      | Some d \<Rightarrow> py_int_digits (10 * acc + d) cs)"

definition py_int_of_str :: "string \<Rightarrow> exc + int" where
  "py_int_of_str s = (if s = [] then Inl ValueError else py_int_digits 0 s)"

text \<open>\<open>max\<close> of a list and \<open>numpy.max\<close> of an array raise \<open>ValueError\<close> on no elements.\<close>

definition py_max :: "real list \<Rightarrow> exc + real" where
  "py_max xs = (case xs of [] \<Rightarrow> Inl ValueError | x # r \<Rightarrow> Inr (fold max r x))"

section \<open>Programs: state passing with exceptions\<close>

text \<open>
  A method takes the state and returns the new state with either the exception that
  left it (\<open>Inl\<close>) or its value (\<open>Inr\<close>). The state an exception leaves behind is the
  state at the raise: Python undoes nothing.
\<close>

type_synonym ('s, 'a) prog = "'s \<Rightarrow> (exc + 'a) \<times> 's"

definition ret :: "'a \<Rightarrow> ('s, 'a) prog" where
  "ret v s = (Inr v, s)"

definition raise :: "exc \<Rightarrow> ('s, 'a) prog" where
  "raise e s = (Inl e, s)"

definition lift :: "exc + 'a \<Rightarrow> ('s, 'a) prog" where
  "lift r s = (r, s)"

definition bnd :: "('s, 'a) prog \<Rightarrow> ('a \<Rightarrow> ('s, 'b) prog) \<Rightarrow> ('s, 'b) prog" where
  "bnd m k s = (case m s of (Inl e, s') \<Rightarrow> (Inl e, s') | (Inr v, s') \<Rightarrow> k v s')"

definition get_state :: "('s, 's) prog" where
  "get_state s = (Inr s, s)"

definition modify :: "('s \<Rightarrow> 's) \<Rightarrow> ('s, unit) prog" where
  "modify f s = (Inr (), f s)"

text \<open>\<open>try: m  except: h\<close> (a bare \<open>except\<close> catches every exception).\<close>

definition try_except :: "('s, 'a) prog \<Rightarrow> ('s, 'a) prog \<Rightarrow> ('s, 'a) prog" where
  "try_except m h s = (case m s of (Inl e, s') \<Rightarrow> h s' | (Inr v, s') \<Rightarrow> (Inr v, s'))"

text \<open>\<open>try: m  except Exception: h\<close> lets an exception outside \<open>Exception\<close> through.\<close>

definition try_except_Exception :: "('s, 'a) prog \<Rightarrow> ('s, 'a) prog \<Rightarrow> ('s, 'a) prog" where
  "try_except_Exception m h s =
     (case m s of
        (Inl e, s') \<Rightarrow> if is_Exception e then h s' else (Inl e, s')
      | (Inr v, s') \<Rightarrow> (Inr v, s'))"

text \<open>A \<open>for\<close> loop over a list, and one that carries local variables along.\<close>

fun for_each :: "'a list \<Rightarrow> ('a \<Rightarrow> ('s, unit) prog) \<Rightarrow> ('s, unit) prog" where
  "for_each [] body = ret ()"
| "for_each (x # xs) body = bnd (body x) (\<lambda>_. for_each xs body)"

fun for_acc :: "'a list \<Rightarrow> ('a \<Rightarrow> 'b \<Rightarrow> ('s, 'b) prog) \<Rightarrow> 'b \<Rightarrow> ('s, 'b) prog" where
  "for_acc [] body acc = ret acc"
| "for_acc (x # xs) body acc = bnd (body x acc) (for_acc xs body)"

section \<open>The collaborators of the widget\<close>

text \<open>
  \<open>Spectrogram\<close>, \<open>Spectrum\<close>, \<open>DigFile\<close>, \<open>PeakFollower\<close>, \<open>GaussianFitter\<close>,
  \<open>Gaussian\<close>, numpy, matplotlib and ipywidgets are not part of the two source files.
  Every use the widget makes of them is a \<^emph>\<open>call\<close>: the object addressed, the member
  named in the source, and the arguments. The calls made so far are kept in the state
  (its \<open>trace\<close>); what a call raises or returns is decided by an environment that sees
  the calls made before, so a collaborator may behave in any way and may change its
  behaviour over time.
\<close>

text \<open>A \<open>Spectrum\<close> object carries three arrays.\<close>

record Spectrum =
  sp_db :: "real list"
  sp_power :: "real list"
  sp_velocities :: "real list"

text \<open>A \<open>Gaussian\<close> fit: \<open>valid\<close>, \<open>center\<close>, \<open>width\<close>, \<open>amplitude\<close>.\<close>

record Gaussian =
  valid :: bool
  center :: real
  width :: real
  amplitude :: real

text \<open>
  A handle names an object a collaborator created (a plotted line, a figure, a follower):
  it is the number of calls made before the call that created it.
\<close>

type_synonym handle = nat

datatype axes = AxSpectrogram | AxSpectrum | FigAx handle nat

datatype target =
    Spectrogram_cls | Spectrogram_obj | DigFile_cls | Digfile_obj | Spectrum_cls | Spectrum_obj
  | Numpy | Pyplot | Figure | Ax axes | Lines axes | Line handle | Artist handle | Canvas
  | Marquee | Widgets | Display | Colormaps | Module
  | PeakFollower_cls | GaussianFitter_cls | Gaussian_cls | Follower handle

datatype val =
    VNone | VBool bool | VInt int | VReal real | VStr string
  | VReals "real list" | VInts "int list" | VSpans "(int \<times> int) list"
  | VArray2 nat "real list list"
  | VSpectrum Spectrum | VGaussian Gaussian | VHandle handle | VSpectrogram
  | VPair val val

datatype call = Call target string "val list"

record env =
  raises :: "call list \<Rightarrow> call \<Rightarrow> exc option"
  result :: "call list \<Rightarrow> call \<Rightarrow> val"

text \<open>
  Reading a value a collaborator returned at the type the code uses it at. A value of
  another shape makes the Python fail; the model raises \<open>TypeError\<close> there.
\<close>

definition as_real :: "val \<Rightarrow> exc + real" where
  "as_real v = (case v of VReal x \<Rightarrow> Inr x | VInt i \<Rightarrow> Inr (real_of_int i) | _ \<Rightarrow> Inl TypeError)"

definition as_reals :: "val \<Rightarrow> exc + real list" where
  "as_reals v = (case v of VReals xs \<Rightarrow> Inr xs | _ \<Rightarrow> Inl TypeError)"

definition as_ints :: "val \<Rightarrow> exc + int list" where
  "as_ints v = (case v of VInts xs \<Rightarrow> Inr xs | _ \<Rightarrow> Inl TypeError)"

definition as_spans :: "val \<Rightarrow> exc + (int \<times> int) list" where
  "as_spans v = (case v of VSpans xs \<Rightarrow> Inr xs | _ \<Rightarrow> Inl TypeError)"

definition as_array2 :: "val \<Rightarrow> exc + nat \<times> real list list" where
  "as_array2 v = (case v of VArray2 n rows \<Rightarrow> Inr (n, rows) | _ \<Rightarrow> Inl TypeError)"


definition as_gaussian :: "val \<Rightarrow> exc + Gaussian" where
  "as_gaussian v = (case v of VGaussian g \<Rightarrow> Inr g | _ \<Rightarrow> Inl TypeError)"






text \<open>
  The two-dimensional index \<open>a[i:j, k]\<close> of numpy: the column \<open>k\<close> (checked against the
  number of columns, negative counting from the end) of the rows \<open>i:j\<close>.
\<close>

definition np_column_slice :: "nat \<times> real list list \<Rightarrow> int \<Rightarrow> int \<Rightarrow> int \<Rightarrow> exc + real list" where
  "np_column_slice a i j k =
     (let n = int (fst a) in
      if k < - n \<or> n \<le> k then Inl IndexError
      else map_exc (\<lambda>row. py_get row k) (py_slice (snd a) i j))"

section \<open>The state of the widget\<close>

text \<open>An entry of \<open>self.roi\<close>: \<open>dict(time=(t0, t1), velocity=(v0, v1))\<close>.\<close>

record roi_entry =
  time :: "double \<times> double"
  velocity :: "double \<times> double"

text \<open>An entry of \<open>self.spectra\<close>: the keys \<open>spectrum\<close>, \<open>max\<close>, \<open>90\<close>, \<open>line\<close>, \<open>marker\<close>.\<close>

record spec =
  spec_spectrum :: Spectrum
  spec_max :: real
  spec_90 :: real
  spec_line :: handle
  spec_marker :: handle

text \<open>
  A \<open>PeakFollower\<close> the widget holds: the object itself, and the attribute \<open>line\<close> that
  \<open>follow\<close> sets on it after a successful run.
\<close>

record follower =
  pf_id :: handle
  pf_line :: "handle option"

text \<open>An entry of \<open>self.baselines\<close>: \<open>dict(v=v, line=bline)\<close>.\<close>

record baseline =
  bl_v :: real
  bl_line :: handle

text \<open>An entry of \<open>self.gauss_outs\<close>: the keys \<open>time\<close>, \<open>center\<close>, \<open>width\<close>, \<open>amplitude\<close>.\<close>

record gauss_entry =
  go_time :: "real list"
  go_center :: "real list"
  go_width :: "real list"
  go_amplitude :: "real list"

text \<open>
  The attributes of a \<open>SpectrogramWidget\<close> that its methods read and write.
  \<open>clicker\<close> and \<open>color_map\<close> are the values of the two dropdowns in
  \<open>self.controls\<close>; \<open>t_range\<close>, \<open>velocity_range\<close> and \<open>intensity_range\<close> are the
  three \<open>ValueSlider\<close>s there. \<open>gauss_outs\<close> and \<open>raw\<close> are \<open>None\<close> while the attribute
  does not exist (\<open>hasattr\<close> is false). The objects held in \<open>digfile\<close>, \<open>spectrogram\<close>,
  \<open>fig\<close>, the two axes and the other controls never change after construction and are
  addressed by name in the calls.
\<close>

record widget =
  title :: string
  clicker :: string
  color_map :: string
  t_range :: "real ValueSlider"
  velocity_range :: "real ValueSlider"
  intensity_range :: "real ValueSlider"
  image :: "handle option"
  colorbar :: "handle option"
  raw :: "val option"
  selecting :: bool
  roi :: "roi_entry list"
  peak_followers :: "follower list"
  spectra :: "spec list"
  spectra_in_db :: bool
  baselines :: "baseline list"
  gauss_outs :: "gauss_entry option list option"
  gauss :: "handle option"
  subfig :: "handle option"
  axSpare :: "axes option"
  axTrack :: "axes option"
  threshold :: val
  trace :: "call list"

text \<open>A call of a collaborator: it is recorded, then it raises or returns.\<close>

definition ext :: "env \<Rightarrow> call \<Rightarrow> (widget, val) prog" where
  "ext env c s =
     (let s' = s\<lparr>trace := trace s @ [c]\<rparr> in
      case raises env (trace s) c of
        Some e \<Rightarrow> (Inl e, s')
      | None \<Rightarrow> (Inr (result env (trace s) c), s'))"

text \<open>A call that creates an object returns the handle of the new object.\<close>

definition ext_handle :: "env \<Rightarrow> call \<Rightarrow> (widget, handle) prog" where
  "ext_handle env c = bnd get_state (\<lambda>s. bnd (ext env c) (\<lambda>_. ret (length (trace s))))"

definition ext_real :: "env \<Rightarrow> call \<Rightarrow> (widget, real) prog" where
  "ext_real env c = bnd (ext env c) (\<lambda>v. lift (as_real v))"

definition ext_reals :: "env \<Rightarrow> call \<Rightarrow> (widget, real list) prog" where
  "ext_reals env c = bnd (ext env c) (\<lambda>v. lift (as_reals v))"

text \<open>
  Reading the attribute \<open>name\<close> of a \<open>Spectrum\<close> object (\<open>sp.db\<close>, or
  \<open>getattr(sp, field)\<close> with a computed name).
\<close>

definition Spectrum_getattr :: "Spectrum \<Rightarrow> string \<Rightarrow> exc + real list" where
  "Spectrum_getattr sp name =
     (if name = ''db'' then Inr (sp_db sp)
      else if name = ''power'' then Inr (sp_power sp)
      else if name = ''velocities'' then Inr (sp_velocities sp)
      else Inl AttributeError)"

definition read_spectrum :: "env \<Rightarrow> Spectrum \<Rightarrow> string \<Rightarrow> (widget, real list) prog" where
  "read_spectrum env sp name =
     bnd (ext env (Call Spectrum_obj name [])) (\<lambda>_. lift (Spectrum_getattr sp name))"

section \<open>The methods of the widget\<close>

text \<open>
  An event of the canvas, with coordinates of type \<open>'c\<close>. The two handlers only test
  whether the coordinates are there and pass them on, and take them as reals;
  \<open>RSelect\<close> compares them, and takes them as floats, NaN and the infinities included.
\<close>

record 'c event =
  xdata :: "'c option"
  ydata :: "'c option"
  key :: "string option"

text \<open>
  The coordinates of an event, \<open>t, v = event.xdata * 1e-6, event.ydata\<close>: outside the
  axes \<open>xdata\<close> is \<open>None\<close> and the product raises \<open>TypeError\<close>.
\<close>

definition read_coords :: "real event \<Rightarrow> exc + real \<times> real option" where
  "read_coords ev =
     (case xdata ev of None \<Rightarrow> Inl TypeError | Some x \<Rightarrow> Inr (x * (1 / 1000000), ydata ev))"

subsection \<open>RSelect\<close>

text \<open>
  \<open>if b < a: a, b = b, a\<close> on two coordinates; comparing with \<open>None\<close> raises
  \<open>TypeError\<close>, and \<open>b < a\<close> is false when one of the two is a NaN.
\<close>

definition in_order :: "double option \<Rightarrow> double option \<Rightarrow> exc + double \<times> double" where
  "in_order a b =
     (case (a, b) of
        (Some x, Some y) \<Rightarrow> Inr (if d_less y x then (y, x) else (x, y))
      | _ \<Rightarrow> Inl TypeError)"


subsection \<open>spectrum\<close>



lemma bnd_cong [fundef_cong]:
  "m = m' \<Longrightarrow> s = s' \<Longrightarrow> (\<And>v t. m' s' = (Inr v, t) \<Longrightarrow> k v t = k' v t)
     \<Longrightarrow> bnd m k s = bnd m' k' s'"
  by (auto simp: bnd_def split: prod.splits sum.splits)








subsection \<open>follow\<close>



subsection \<open>handle_click\<close>

text \<open>
  \<open>try: x = m   except: return r\<close>, then the rest of the function with \<open>x\<close>.
\<close>

definition try_or_return :: "('s, 'a) prog \<Rightarrow> 'b \<Rightarrow> ('a \<Rightarrow> ('s, 'b) prog) \<Rightarrow> ('s, 'b) prog" where
  "try_or_return m r k s = (case m s of (Inl e, s') \<Rightarrow> (Inr r, s') | (Inr x, s') \<Rightarrow> k x s')"



subsection \<open>clear_spectra, clear_followers, analyze_roi\<close>

definition clear_spectra :: "env \<Rightarrow> (widget, pyret) prog" where
  "clear_spectra env =
     bnd get_state (\<lambda>s.
     bnd (for_each (spectra s) (\<lambda>x.
            bnd (ext env (Call (Lines AxSpectrogram) ''remove'' [VHandle (spec_marker x)])) (\<lambda>_.
            bnd (ext env (Call (Lines AxSpectrum) ''remove'' [VHandle (spec_line x)])) (\<lambda>_.
            ret ())))) (\<lambda>_.
     bnd (modify (\<lambda>s. s\<lparr>spectra := []\<rparr>)) (\<lambda>_.
     bnd (ext env (Call Canvas ''draw'' [])) (\<lambda>_.
     bnd (ext env (Call Canvas ''flush_events'' [])) (\<lambda>_.
     ret PyNone)))))"



text \<open>
  \<open>analyze_roi\<close> calls \<open>analyze_region(self.spectrogram, roi['time'])\<close> for each region.
  The module neither defines nor imports a name \<open>analyze_region\<close>, so looking the name
  up raises \<open>NameError\<close> in the first iteration, before the arguments are evaluated.
\<close>

definition analyze_roi :: "(widget, pyret) prog" where
  "analyze_roi =
     bnd get_state (\<lambda>s.
     bnd (for_each (roi s) (\<lambda>r. raise NameError)) (\<lambda>_.
     ret PyNone))"

subsection \<open>gauss_out\<close>

text \<open>
  One turn of the loop \<open>for j in range(len(tind))\<close>; the local lists \<open>times\<close> (here \<open>tms\<close>),
  \<open>centers\<close>, \<open>widths\<close>, \<open>amps\<close> are carried along.
\<close>

definition gauss_step ::
  "env \<Rightarrow> (int \<times> int) list \<Rightarrow> int list \<Rightarrow> nat
     \<Rightarrow> real list \<times> real list \<times> real list \<times> real list
     \<Rightarrow> (widget, real list \<times> real list \<times> real list \<times> real list) prog" where
  "gauss_step env vind tind j acc =
     (case acc of (tms, centers, widths, amps) \<Rightarrow>
     bnd (ext_reals env (Call Spectrogram_obj ''time'' [])) (\<lambda>tvec.
     bnd (lift (py_get tind (int j))) (\<lambda>tj.
     bnd (lift (py_get tvec tj)) (\<lambda>t0.
     let t = t0 * 1000000 in
     bnd (lift (py_get vind (int j))) (\<lambda>(vfrom, vto).
     bnd (ext env (Call Spectrogram_obj ''intensity'' [])) (\<lambda>iv.
     bnd (lift (as_array2 iv)) (\<lambda>ivec.
     bnd (lift (py_get tind (int j))) (\<lambda>tj'.
     bnd (lift (np_column_slice ivec vfrom vto tj')) (\<lambda>column.
     bnd (ext_reals env (Call Spectrogram_obj ''power'' [VReals column])) (\<lambda>powers.
     bnd (ext_reals env (Call Spectrogram_obj ''velocity'' [])) (\<lambda>vvec.
     let speeds = py_slice vvec vfrom vto in
     bnd (ext env (Call Gaussian_cls ''Gaussian'' [VReals speeds, VReals powers])) (\<lambda>g.
     bnd (lift (as_gaussian g)) (\<lambda>gus.
     if valid gus
     then ret (tms @ [t], centers @ [center gus], widths @ [width gus],
               amps @ [amplitude gus])
     else ret (tms, centers, widths, amps))))))))))))))"

text \<open>
  In \<open>gauss_out\<close> below the TeX markup of the axis labels is written in plain letters.
\<close>

text \<open>
  \<open>self.gauss_outs\<close> is created, or padded with \<open>None\<close>, up to the number of followers.
\<close>

definition pad_gauss_outs :: "widget \<Rightarrow> gauss_entry option list" where
  "pad_gauss_outs s =
     (case gauss_outs s of
        None \<Rightarrow> replicate (length (peak_followers s)) None
      | Some g \<Rightarrow> g @ replicate (length (peak_followers s) - length g) None)"

definition gauss_out :: "env \<Rightarrow> int \<Rightarrow> (widget, pyret) prog" where
  "gauss_out env n =
     bnd get_state (\<lambda>s.
     if int (length (peak_followers s)) \<le> n then ret (PyInt 0)
     else
     bnd (lift (py_get (peak_followers s) n)) (\<lambda>pf.
     bnd (ext env (Call (Follower (pf_id pf)) ''frame[velocity_index_spans].to_numpy'' []))
       (\<lambda>a.
     bnd (lift (as_spans a)) (\<lambda>vind.
     bnd (ext env (Call (Follower (pf_id pf)) ''frame[time_index].to_numpy'' [])) (\<lambda>b.
     bnd (lift (as_ints b)) (\<lambda>tind.
     bnd (for_acc [0..<length tind] (gauss_step env vind tind) ([], [], [], []))
       (\<lambda>(tms, centers, widths, amps).
     bnd (ext_handle env (Call Pyplot ''subplots'' [VInt 1, VInt 3])) (\<lambda>fig.
     bnd (ext env (Call (Ax (FigAx fig 0)) ''errorbar''
            [VReals tms, VReals centers, VStr ''b-'', VReals widths])) (\<lambda>_.
     bnd (ext env (Call (Ax (FigAx fig 0)) ''set_xlabel'' [VStr ''t (us)''])) (\<lambda>_.
     bnd (ext env (Call (Ax (FigAx fig 0)) ''set_ylabel'' [VStr ''$v$ (m/s)''])) (\<lambda>_.
     bnd (ext env (Call (Ax (FigAx fig 1)) ''plot''
            [VReals tms, VReals widths, VStr ''r-''])) (\<lambda>_.
     bnd (ext env (Call (Ax (FigAx fig 1)) ''set_xlabel'' [VStr ''t (us)''])) (\<lambda>_.
     bnd (ext env (Call (Ax (FigAx fig 1)) ''set_ylabel'' [VStr ''delta v (m/s)'']))
       (\<lambda>_.
     bnd (ext env (Call (Ax (FigAx fig 2)) ''plot''
            [VReals tms, VReals amps, VStr ''g-''])) (\<lambda>_.
     bnd (ext env (Call (Ax (FigAx fig 2)) ''set_xlabel'' [VStr ''t (us)''])) (\<lambda>_.
     bnd (ext env (Call (Ax (FigAx fig 2)) ''set_ylabel'' [VStr ''Amplitude''])) (\<lambda>_.
     bnd (modify (\<lambda>s. s\<lparr>gauss_outs := Some (pad_gauss_outs s)\<rparr>)) (\<lambda>_.
     bnd get_state (\<lambda>s1.
     bnd (lift (py_set (pad_gauss_outs s1) n
            (Some \<lparr>go_time = tms, go_center = centers, go_width = widths,
                   go_amplitude = amps\<rparr>))) (\<lambda>g.
     bnd (modify (\<lambda>s. s\<lparr>gauss_outs := Some g\<rparr>)) (\<lambda>_.
     ret PyNone)))))))))))))))))))))"

subsection \<open>fan_out\<close>

text \<open>
  One turn of the loop that collects \<open>spans\<close>; a span is the triple of its \<open>'v'\<close>,
  \<open>'power'\<close> and \<open>'t'\<close> entries.
\<close>

definition fan_step ::
  "env \<Rightarrow> (int \<times> int) list \<Rightarrow> int list \<Rightarrow> real list \<Rightarrow> real list \<Rightarrow> nat \<times> real list list
     \<Rightarrow> nat \<Rightarrow> (real list \<times> real list \<times> real) list
     \<Rightarrow> (widget, (real list \<times> real list \<times> real) list) prog" where
  "fan_step env vind tind vvec tvec ivec k spans =
     bnd (lift (py_get vind (int k))) (\<lambda>(vfrom, vto).
     let v = py_slice vvec vfrom vto in
     bnd (lift (py_get tind (int k))) (\<lambda>tk.
     bnd (lift (np_column_slice ivec vfrom vto tk)) (\<lambda>column.
     bnd (ext_reals env (Call Spectrogram_obj ''power'' [VReals column])) (\<lambda>p.
     bnd (lift (py_get tind (int k))) (\<lambda>tk'.
     bnd (lift (py_get tvec tk')) (\<lambda>t.
     ret (spans @ [(v, p, t * 1000000)])))))))"

definition fan_out :: "env \<Rightarrow> int \<Rightarrow> (widget, pyret) prog" where
  "fan_out env n =
     bnd get_state (\<lambda>s.
     if int (length (peak_followers s)) \<le> n then ret (PyInt 0)
     else
     bnd (lift (py_get (peak_followers s) n)) (\<lambda>pf.
     bnd (ext env (Call (Follower (pf_id pf)) ''frame[velocity_index_spans].to_numpy'' []))
       (\<lambda>a.
     bnd (lift (as_spans a)) (\<lambda>vind.
     bnd (ext env (Call (Follower (pf_id pf)) ''frame[time_index].to_numpy'' [])) (\<lambda>b.
     bnd (lift (as_ints b)) (\<lambda>tind.
     bnd (ext_handle env (Call Pyplot ''subplots'' [VInt 1, VInt 2])) (\<lambda>fig.
     bnd (modify (\<lambda>s. s\<lparr>subfig := Some fig, axSpare := Some (FigAx fig 0),
                          axTrack := Some (FigAx fig 1)\<rparr>)) (\<lambda>_.
     bnd (ext_reals env (Call Spectrogram_obj ''velocity'' [])) (\<lambda>vvec.
     bnd (ext_reals env (Call Spectrogram_obj ''time'' [])) (\<lambda>tvec.
     bnd (ext env (Call Spectrogram_obj ''intensity'' [])) (\<lambda>iv.
     bnd (lift (as_array2 iv)) (\<lambda>ivec.
     bnd (for_acc [0..<length tind] (fan_step env vind tind vvec tvec ivec) []) (\<lambda>spans.
     bnd (lift (map_exc (\<lambda>(v, p, t). py_max p) spans)) (\<lambda>maxima.
     bnd (lift (py_max maxima)) (\<lambda>maxpower.
     let offset = 0.025 * maxpower in
     bnd (for_each (rev (enumerate 0 spans)) (\<lambda>(k, (v, p, t)).
            bnd (ext env (Call (Ax (FigAx fig 1)) ''plot''
                   [VReals (map (\<lambda>x. x + real k * offset) p), VReals v, VStr ''b-'']))
              (\<lambda>_. ret ()))) (\<lambda>_.
     bnd (ext env (Call (Ax (FigAx fig 1)) ''set_ylabel'' [VStr ''$v$''])) (\<lambda>_.
     ret PyNone)))))))))))))))))"

subsection \<open>handle_key\<close>

text \<open>
  \<open>char in "0123456789"\<close> is a substring test on a string and raises \<open>TypeError\<close> when
  \<open>event.key\<close> is \<open>None\<close>; \<open>char == 'x'\<close> and \<open>char in ('m', 'M')\<close> are just false then.
  \<open>digit_key\<close> gives the string back when the test holds.
\<close>

definition digit_key :: "string option \<Rightarrow> exc + string option" where
  "digit_key char =
     (case char of
        None \<Rightarrow> Inl TypeError
      | Some c \<Rightarrow> Inr (if py_in_str c ''0123456789'' then Some c else None))"

definition handle_key :: "env \<Rightarrow> real event \<Rightarrow> (widget, pyret) prog" where
  "handle_key env ev =
     bnd (try_except (bnd (lift (read_coords ev)) (\<lambda>_. ret ())) (ret ())) (\<lambda>_.
     let char = key ev in
     bnd (if char = Some ''x'' then bnd (clear_spectra env) (\<lambda>_. ret ()) else ret ()) (\<lambda>_.
     bnd (if char = Some ''m'' \<or> char = Some ''M''
          then bnd (modify (\<lambda>s. s\<lparr>selecting := \<not> selecting s\<rparr>)) (\<lambda>_.
               bnd get_state (\<lambda>s.
               bnd (ext env (Call Marquee ''set_active'' [VBool (selecting s)])) (\<lambda>_.
               ret ())))
          else ret ()) (\<lambda>_.
     bnd (lift (digit_key char)) (\<lambda>digits.
     bnd (case digits of
            Some c \<Rightarrow> bnd (lift (py_int_of_str c)) (\<lambda>n.
                      bnd (gauss_out env n) (\<lambda>_. ret ()))
          | None \<Rightarrow> ret ()) (\<lambda>_.
     bnd get_state (\<lambda>s.
     bnd (if (char = Some ''a'' \<or> char = Some ''A'') \<and> roi s \<noteq> []
          then bnd analyze_roi (\<lambda>_. ret ())
          else ret ()) (\<lambda>_.
     ret PyNone)))))))"

subsection \<open>Drawing the spectrogram\<close>














subsection \<open>Baselines and the thumbnail\<close>





subsection \<open>Construction\<close>









subsection \<open>A widget as construction leaves it\<close>

text \<open>
  The attributes after \<open>__init__\<close> on a recording of 50 microseconds with velocities up
  to 10 km/s and intensities up to 0 dB: no baselines, followers, spectra or regions,
  spectra shown in dB, no selection going on, the click action \<open>'Spectrum (dB)'\<close>, the
  default color map, and no attribute \<open>gauss_outs\<close> or \<open>raw\<close>. The first image is the
  artist \<open>0\<close>, its color bar the artist \<open>1\<close>. The calls made so far are \<open>tr\<close>.
\<close>

definition init_widget :: "call list \<Rightarrow> widget" where
  "init_widget tr =
     \<lparr> title = ''shot.dig'', clicker = ''Spectrum (dB)'', color_map = ''3w_gby'',
       t_range = ValueSlider_set_range (0, 50 / 1000000)
                   (ValueSlider_init exact_arith [0, 25] (0, 50 / 1000000) 1000000),
       velocity_range = ValueSlider_init exact_arith [0, 50] (0, 10000) (1 / 1000),
       intensity_range = ValueSlider_set_range (- 120, 0) (ValueSlider_init exact_arith [40, 70] (- 200, 0) 1),
       image = Some 0, colorbar = Some 1, raw = None,
       selecting = False, roi = [], peak_followers = [],
       spectra = [], spectra_in_db = True, baselines = [], gauss_outs = None,
       gauss = None, subfig = None, axSpare = None, axTrack = None, threshold = VNone,
       trace = tr \<rparr>"

subsection \<open>The operations on a widget\<close>




section \<open>The template-image export script\<close>

text \<open>
  The file system as the script sees it: directories and files under absolute paths (a
  path is the list of its components, the root is the empty list), and the working
  directory. \<open>written\<close> lists the paths \<open>imsave\<close> was called on, in order.
\<close>

type_synonym path = "string list"

datatype 'img entry = Dir | File 'img

record 'img fs =
  cwd :: path
  entries :: "path \<rightharpoonup> 'img entry"
  written :: "path list"

text \<open>\<open>os.path.exists\<close>; the root always exists.\<close>

definition path_exists :: "'img fs \<Rightarrow> path \<Rightarrow> bool" where
  "path_exists s p = (p = [] \<or> entries s p \<noteq> None)"

definition is_dir :: "'img fs \<Rightarrow> path \<Rightarrow> bool" where
  "is_dir s p = (p = [] \<or> entries s p = Some Dir)"

text \<open>
  \<open>imsave(path, image)\<close> is not part of the script: whether it raises on a path is a
  parameter. When it returns, the file holds the image.
\<close>

definition imsave :: "(path \<Rightarrow> exc option) \<Rightarrow> path \<Rightarrow> 'img \<Rightarrow> ('img fs, unit) prog" where
  "imsave io p img s =
     (case io p of
        Some e \<Rightarrow> (Inl e, s\<lparr>written := written s @ [p]\<rparr>)
      | None \<Rightarrow> (Inr (), s\<lparr>entries := (entries s)(p \<mapsto> File img), written := written s @ [p]\<rparr>))"

text \<open>The file name \<open>f"./im_template_{x}.png"\<close>, relative to the working directory.\<close>

definition template_file :: "string \<Rightarrow> string" where
  "template_file x = ''im_template_'' @ x @ ''.png''"

text \<open>
  \<open>Templates\<close> is defined in a module that is not among the sources: it is a parameter,
  the list of the members in iteration order, each with its printed name \<open>str(x)\<close> and
  its image \<open>x.value[0]\<close>.
\<close>

definition saveAllTemplateImages ::
  "(path \<Rightarrow> exc option) \<Rightarrow> (string \<times> 'img) list \<Rightarrow> ('img fs, unit) prog" where
  "saveAllTemplateImages io templates =
     for_each templates (\<lambda>(x, img).
       bnd get_state (\<lambda>s.
       let p = cwd s @ [template_file x] in
       if \<not> path_exists s p then imsave io p img else ret ()))"

text \<open>
  \<open>os.path.relpath(path)\<close> on the components of the two absolute paths: up from the
  working directory to the longest common prefix, then down.
\<close>

fun common_prefix :: "'a list \<Rightarrow> 'a list \<Rightarrow> nat" where
  "common_prefix (x # xs) (y # ys) = (if x = y then Suc (common_prefix xs ys) else 0)"
| "common_prefix _ _ = 0"

definition relpath :: "path \<Rightarrow> path \<Rightarrow> string list" where
  "relpath p start =
     (let i = common_prefix start p;
          rel_list = replicate (length start - i) ''..'' @ drop i p
      in if rel_list = [] then [''.''] else rel_list)"

text \<open>
  \<open>getImageDirectory\<close>: the head of \<open>os.path.split(os.path.relpath(__file__))\<close>, as
  components; no component stands for the empty string \<open>''\<close>.
\<close>

definition getImageDirectory :: "path \<Rightarrow> 'img fs \<Rightarrow> string list" where
  "getImageDirectory file s = butlast (relpath file (cwd s))"

text \<open>
  \<open>os.chdir\<close> on a relative path: the empty string is no directory
  (\<open>FileNotFoundError\<close>); otherwise each component is followed in turn and has to lead
  to a directory.
\<close>

fun walk :: "'img fs \<Rightarrow> path \<Rightarrow> string list \<Rightarrow> exc + path" where
  "walk s p [] = Inr p"
| "walk s p (c # cs) =
     (let q = (if c = ''..'' then butlast p else if c = ''.'' then p else p @ [c]) in
      if is_dir s q then walk s q cs
      else if path_exists s q then Inl (OtherError ''NotADirectoryError'')
      else Inl FileNotFoundError)"

definition chdir_rel :: "string list \<Rightarrow> ('img fs, unit) prog" where
  "chdir_rel rel s =
     (if rel = [] then (Inl FileNotFoundError, s)
      else case walk s (cwd s) rel of
             Inl e \<Rightarrow> (Inl e, s)
           | Inr p \<Rightarrow> (Inr (), s\<lparr>cwd := p\<rparr>))"

text \<open>\<open>os.chdir\<close> on an absolute path.\<close>

definition chdir_abs :: "path \<Rightarrow> ('img fs, unit) prog" where
  "chdir_abs p s =
     (if is_dir s p then (Inr (), s\<lparr>cwd := p\<rparr>)
      else if path_exists s p then (Inl (OtherError ''NotADirectoryError''), s)
      else (Inl FileNotFoundError, s))"

text \<open>
  The statements at module level, run by an import of the script; \<open>file\<close> is the
  absolute path of the script.
\<close>

definition import_script ::
  "(path \<Rightarrow> exc option) \<Rightarrow> (string \<times> 'img) list \<Rightarrow> path \<Rightarrow> ('img fs, unit) prog" where
  "import_script io templates file =
     bnd get_state (\<lambda>s0.
     let imageSaveDir = getImageDirectory file s0;
         currDir = cwd s0 in
     bnd (chdir_rel imageSaveDir) (\<lambda>_.
     bnd (saveAllTemplateImages io templates) (\<lambda>_.
     chdir_abs currDir)))"

text \<open>What a run of the loop does to the file system, however it ends.\<close>

definition grown :: "(string \<times> 'img) list \<Rightarrow> 'img fs \<Rightarrow> 'img fs \<Rightarrow> bool" where
  "grown ts s s' =
     (cwd s' = cwd s
      \<and> (\<forall>p. path_exists s p \<longrightarrow> entries s' p = entries s p)
      \<and> (\<exists>new. written s' = written s @ new
            \<and> (\<forall>p \<in> set new. \<not> path_exists s p
                  \<and> (\<exists>x \<in> fst ` set ts. p = cwd s @ [template_file x]))))"

section \<open>Concrete environments and events\<close>

text \<open>Collaborators that never raise, and return nothing of interest.\<close>

definition quiet_env :: env where
  "quiet_env = \<lparr> raises = (\<lambda>tr c. None), result = (\<lambda>tr c. VNone) \<rparr>"


text \<open>Axes whose list of lines refuses \<open>remove\<close>.\<close>

definition no_remove_env :: env where
  "no_remove_env =
     \<lparr> raises = (\<lambda>tr c. case c of Call (Lines a) name args \<Rightarrow> Some ValueError | _ \<Rightarrow> None),
       result = (\<lambda>tr c. VNone) \<rparr>"


text \<open>A widget showing one spectrum.\<close>

definition one_spectrum :: widget where
  "one_spectrum =
     (init_widget [])\<lparr>spectra :=
        [\<lparr>spec_spectrum = \<lparr>sp_db = [1], sp_power = [10], sp_velocities = [0]\<rparr>,
          spec_max = 1, spec_90 = 1, spec_line = 0, spec_marker = 1\<rparr>]\<rparr>"





definition key_press :: "string \<Rightarrow> real event" where
  "key_press c = \<lparr> xdata = None, ydata = None, key = Some c \<rparr>"


text \<open>
  A small file system: the repository root, the template directory and the script in it
  (files hold numbers for images), with the working directory \<open>d\<close>.
\<close>

definition repo_fs :: "path \<Rightarrow> nat fs" where
  "repo_fs d =
     \<lparr> cwd = d,
       entries = [[''repo''] \<mapsto> Dir, [''repo'', ''Templates''] \<mapsto> Dir,
                  [''repo'', ''Templates'', ''saveTemplateImages.py''] \<mapsto> File 0],
       written = [] \<rparr>"

text \<open>The absolute path of the script, and two templates.\<close>

definition script_path :: path where
  "script_path = [''repo'', ''Templates'', ''saveTemplateImages.py'']"

definition two_templates :: "(string \<times> nat) list" where
  "two_templates = [(''Templates.start'', 1), (''Templates.end'', 2)]"


text \<open>The same file system with the image of \<open>Templates.start\<close> already there.\<close>

definition half_done_fs :: "nat fs" where
  "half_done_fs =
     \<lparr> cwd = [''repo'', ''Templates''],
       entries = [[''repo''] \<mapsto> Dir, [''repo'', ''Templates''] \<mapsto> Dir,
                  [''repo'', ''Templates'', ''saveTemplateImages.py''] \<mapsto> File 0,
                  [''repo'', ''Templates'', ''im_template_Templates.start.png''] \<mapsto> File 7],
       written = [] \<rparr>"

text \<open>A method that ends without \<open>return\<close> gives \<open>None\<close>; what its last statement raises, it raises.\<close>

definition falls_off_end :: "(exc + 'a) \<times> widget \<Rightarrow> (exc + pyret) \<times> widget" where
  "falls_off_end r = (case fst r of Inl e \<Rightarrow> Inl e | Inr v \<Rightarrow> Inr PyNone, snd r)"




section \<open>Frame rules for programs\<close>












text \<open>From \<open>s\<close> to \<open>s'\<close> calls were made, all of them satisfying \<open>P\<close>.\<close>

definition only_calls :: "(call \<Rightarrow> bool) \<Rightarrow> widget \<Rightarrow> widget \<Rightarrow> bool" where
  "only_calls P s s' = (\<exists>new. trace s' = trace s @ new \<and> (\<forall>c \<in> set new. P c))"



























subsection \<open>Every method but RSelect respects a frame relation\<close>











































section \<open>Properties of the widget\<close>

lemmas run_defs = bnd_def ret_def raise_def lift_def get_state_def modify_def ext_def
  ext_handle_def ext_real_def ext_reals_def read_spectrum_def try_except_def
  try_except_Exception_def try_or_return_def

subsection \<open>Follower indices out of bounds\<close>

text \<open>
  Claim C3. For every integer \<open>n\<close> greater than or equal to the number of stored peak
  followers, \<open>gauss_out(n)\<close> and \<open>fan_out(n)\<close> do not raise: each returns 0 and leaves
  the whole state of the widget as it was (no attribute changes, no collaborator is called).
\<close>

theorem follower_index_out_of_bounds:
  "int (length (peak_followers s)) \<le> n \<Longrightarrow>
     gauss_out env n s = (Inr (PyInt 0), s) \<and> fan_out env n s = (Inr (PyInt 0), s)"
  by (simp add: gauss_out_def fan_out_def bnd_def get_state_def ret_def)

theorem follower_index_out_of_bounds_witness:
  "gauss_out quiet_env 3 (init_widget []) = (Inr (PyInt 0), init_widget [])
   \<and> fan_out quiet_env 3 (init_widget []) = (Inr (PyInt 0), init_widget [])"
  using follower_index_out_of_bounds [of "init_widget []" 3 quiet_env]
  by (simp add: init_widget_def)

subsection \<open>The click handler\<close>





subsection \<open>The key handler\<close>

lemma bnd_ret [simp]: "bnd (ret v) k = k v"
  by (rule ext) (simp add: bnd_def ret_def)

lemma bnd_lift_Inr [simp]: "bnd (lift (Inr v)) k = k v"
  by (rule ext) (simp add: bnd_def lift_def)

lemma bnd_lift_Inl [simp]: "bnd (lift (Inl e)) k = raise e"
  by (rule ext) (simp add: bnd_def lift_def raise_def)

lemma bnd_raise [simp]: "bnd (raise e) k = raise e"
  by (rule ext) (simp add: bnd_def raise_def)

lemma bnd_assoc: "bnd (bnd m f) g = bnd m (\<lambda>x. bnd (f x) g)"
  by (rule ext) (simp add: bnd_def split: prod.splits sum.splits)

lemma bnd_get_state: "bnd get_state k s = k s s"
  by (simp add: bnd_def get_state_def)

lemma bnd_modify: "bnd (modify f) k s = k () (f s)"
  by (simp add: bnd_def modify_def)

lemma try_coords [simp]: "try_except (bnd (lift r) (\<lambda>_. ret ())) (ret ()) = ret ()"
  by (rule ext) (simp add: try_except_def bnd_def lift_def ret_def split: sum.splits)

lemma falls_off_end_bnd: "falls_off_end (m s) = bnd m (\<lambda>_. ret PyNone) s"
  by (simp add: falls_off_end_def bnd_def ret_def split: prod.splits sum.splits)

lemma handle_key_x:
  "key ev = Some ''x'' \<Longrightarrow> handle_key env ev s = falls_off_end (clear_spectra env s)"
  by (simp add: handle_key_def falls_off_end_bnd digit_key_def Let_def bnd_assoc bnd_get_state)

lemma handle_key_m:
  "key ev = Some ''m'' \<or> key ev = Some ''M'' \<Longrightarrow>
     handle_key env ev s =
       falls_off_end (ext env (Call Marquee ''set_active'' [VBool (\<not> selecting s)])
         (s\<lparr>selecting := \<not> selecting s\<rparr>))"
  by (auto simp: handle_key_def falls_off_end_bnd digit_key_def Let_def bnd_assoc
      bnd_get_state bnd_modify)

lemma digit_val_cases:
  "digit_val d = Some n \<Longrightarrow>
     py_in_str [d] ''0123456789'' \<and> py_int_of_str [d] = Inr n
     \<and> [d] \<noteq> ''x'' \<and> [d] \<noteq> ''m'' \<and> [d] \<noteq> ''M'' \<and> [d] \<noteq> ''a'' \<and> [d] \<noteq> ''A''"
  by (auto simp: digit_val_def py_int_of_str_def split: if_splits)

lemma handle_key_digit:
  assumes "key ev = Some [d]" "digit_val d = Some n"
  shows "handle_key env ev s = falls_off_end (gauss_out env n s)"
  using digit_val_cases[OF assms(2)] assms(1)
  by (simp add: handle_key_def falls_off_end_bnd digit_key_def Let_def bnd_assoc bnd_get_state)

lemma handle_key_other:
  assumes "key ev = Some c" "c \<notin> {''x'', ''m'', ''M'', ''a'', ''A''}" "\<not> py_in_str c ''0123456789''"
  shows "handle_key env ev s = (Inr PyNone, s)"
  using assms
  by (simp add: handle_key_def digit_key_def Let_def bnd_assoc bnd_get_state ret_def)


text \<open>
  Claim C2, as the code has it. In \<open>handle_key\<close> only the reading of the coordinates is
  inside a \<open>try\<close>; the actions are dispatched outside of it. So, whatever the coordinates:
  for the key \<open>'x'\<close> the handler returns \<open>None\<close> when \<open>clear_spectra\<close> returns and raises
  what \<open>clear_spectra\<close> raises; likewise for \<open>'m'\<close>/\<open>'M'\<close> and the call of \<open>set_active\<close>
  on the toggled flag, and for a digit key and \<open>gauss_out\<close>; for any other string that is
  not \<open>'a'\<close>/\<open>'A'\<close> and does not occur in \<open>"0123456789"\<close> it returns \<open>None\<close> and changes
  nothing.
\<close>

theorem handle_key_propagates:
  "(key ev = Some ''x'' \<longrightarrow> handle_key env ev s = falls_off_end (clear_spectra env s))
   \<and> (key ev = Some ''m'' \<or> key ev = Some ''M'' \<longrightarrow>
        handle_key env ev s =
          falls_off_end (ext env (Call Marquee ''set_active'' [VBool (\<not> selecting s)])
            (s\<lparr>selecting := \<not> selecting s\<rparr>)))
   \<and> (\<forall>d n. key ev = Some [d] \<and> digit_val d = Some n \<longrightarrow>
        handle_key env ev s = falls_off_end (gauss_out env n s))
   \<and> (\<forall>c. key ev = Some c \<and> c \<notin> {''x'', ''m'', ''M'', ''a'', ''A''}
          \<and> \<not> py_in_str c ''0123456789'' \<longrightarrow>
        handle_key env ev s = (Inr PyNone, s))"
  using handle_key_x[of ev env s] handle_key_m[of ev env s] handle_key_digit[of ev _ _ env s]
    handle_key_other[of ev _ env s]
  by blast

text \<open>
  An error raised by a dispatched action is not swallowed: with a list of lines that
  refuses \<open>remove\<close>, the key \<open>'x'\<close> raises \<open>ValueError\<close> out of the handler.
\<close>

theorem handle_key_clear_spectra_raises:
  "fst (handle_key no_remove_env (key_press ''x'') one_spectrum) = Inl ValueError"
  by (simp add: handle_key_x key_press_def falls_off_end_def clear_spectra_def one_spectrum_def
      init_widget_def run_defs no_remove_env_def)

theorem handle_key_propagates_witness:
  "fst (handle_key quiet_env (key_press ''x'') one_spectrum) = Inr PyNone
   \<and> handle_key quiet_env (key_press ''m'') (init_widget [])
       = (Inr PyNone, (init_widget [])\<lparr>selecting := True,
            trace := [Call Marquee ''set_active'' [VBool True]]\<rparr>)
   \<and> handle_key quiet_env (key_press ''3'') (init_widget []) = (Inr PyNone, init_widget [])
   \<and> handle_key quiet_env (key_press ''q'') (init_widget []) = (Inr PyNone, init_widget [])"
proof -
  have a: "fst (clear_spectra quiet_env one_spectrum) = Inr PyNone"
    by (simp add: clear_spectra_def one_spectrum_def init_widget_def run_defs quiet_env_def)
  have b: "gauss_out quiet_env 3 (init_widget []) = (Inr (PyInt 0), init_widget [])"
    by (simp add: gauss_out_def run_defs init_widget_def)
  have c: "digit_val (CHR ''3'') = Some 3"
    by (simp add: digit_val_def)
  show ?thesis
    using handle_key_propagates [of "key_press ''x''" quiet_env one_spectrum] a
      handle_key_propagates [of "key_press ''m''" quiet_env "init_widget []"]
      handle_key_propagates [of "key_press ''3''" quiet_env "init_widget []"] b c
      handle_key_propagates [of "key_press ''q''" quiet_env "init_widget []"]
    by (simp add: key_press_def falls_off_end_def ext_def quiet_env_def init_widget_def)
qed

subsection \<open>Regions of interest\<close>


lemma in_order_Some:
  "in_order (Some a) (Some b) = Inr (if d_less b a then (b, a) else (a, b))"
  by (simp add: in_order_def)


















section \<open>Properties of the export script\<close>

lemma saveAll_Nil: "saveAllTemplateImages io [] s = (Inr (), s)"
  by (simp add: saveAllTemplateImages_def ret_def)

lemma saveAll_Cons:
  "saveAllTemplateImages io ((x, img) # ts) s =
     (let p = cwd s @ [template_file x] in
      if path_exists s p then saveAllTemplateImages io ts s
      else case imsave io p img s of
             (Inl e, s') \<Rightarrow> (Inl e, s')
           | (Inr u, s') \<Rightarrow> saveAllTemplateImages io ts s')"
  by (simp add: saveAllTemplateImages_def bnd_def get_state_def ret_def Let_def
      split: prod.splits sum.splits)

lemma imsave_cases:
  "imsave io p img s = (Inl e, s') \<Longrightarrow> io p = Some e \<and> s' = s\<lparr>written := written s @ [p]\<rparr>"
  "imsave io p img s = (Inr u, s') \<Longrightarrow>
     io p = None \<and> s' = s\<lparr>entries := (entries s)(p \<mapsto> File img), written := written s @ [p]\<rparr>"
  by (auto simp: imsave_def split: option.splits)

lemma grown_refl: "grown ts s s"
  by (simp add: grown_def)

lemma path_exists_mono:
  "\<forall>p. path_exists s p \<longrightarrow> entries s' p = entries s p \<Longrightarrow> path_exists s p \<Longrightarrow> path_exists s' p"
  by (auto simp: path_exists_def)

lemma grown_step:
  assumes "grown [t] s s1" "grown ts s1 s2"
  shows "grown (t # ts) s s2"
proof -
  from assms(1) obtain n1 where 1: "cwd s1 = cwd s"
    "\<forall>p. path_exists s p \<longrightarrow> entries s1 p = entries s p"
    "written s1 = written s @ n1"
    "\<forall>p \<in> set n1. \<not> path_exists s p \<and> p = cwd s @ [template_file (fst t)]"
    by (auto simp: grown_def)
  from assms(2) obtain n2 where 2: "cwd s2 = cwd s1"
    "\<forall>p. path_exists s1 p \<longrightarrow> entries s2 p = entries s1 p"
    "written s2 = written s1 @ n2"
    "\<forall>p \<in> set n2. \<not> path_exists s1 p \<and> (\<exists>x \<in> fst ` set ts. p = cwd s1 @ [template_file x])"
    by (auto simp: grown_def)
  have e: "\<forall>p. path_exists s p \<longrightarrow> entries s2 p = entries s p"
    using 1(2) 2(2) path_exists_mono[OF 1(2)] by auto
  have n: "\<forall>p \<in> set (n1 @ n2). \<not> path_exists s p
      \<and> (\<exists>x \<in> fst ` set (t # ts). p = cwd s @ [template_file x])"
    using 1(4) 2(4) 1(1) path_exists_mono[OF 1(2)] by auto
  show ?thesis
    unfolding grown_def using 1(1) 2(1) e 1(3) 2(3) n by auto
qed

lemma saveAll_grown: "grown ts s (snd (saveAllTemplateImages io ts s))"
proof (induction ts arbitrary: s)
  case Nil
  then show ?case by (simp add: saveAll_Nil grown_refl)
next
  case (Cons t ts)
  obtain x img where t: "t = (x, img)" by (cases t)
  let ?p = "cwd s @ [template_file x]"
  show ?case
  proof (cases "path_exists s ?p")
    case True
    then have "saveAllTemplateImages io (t # ts) s = saveAllTemplateImages io ts s"
      by (simp add: t saveAll_Cons)
    then show ?thesis using grown_step[OF grown_refl Cons.IH[of s]] by simp
  next
    case False
    obtain r s1 where i: "imsave io ?p img s = (r, s1)" by (cases "imsave io ?p img s")
    have g1: "grown [t] s s1"
      using i False by (cases r) (auto simp: grown_def t path_exists_def dest!: imsave_cases)
    show ?thesis
    proof (cases r)
      case (Inl e)
      then have "snd (saveAllTemplateImages io (t # ts) s) = s1"
        using i False by (simp add: t saveAll_Cons)
      then show ?thesis using grown_step[OF g1 grown_refl] by simp
    next
      case (Inr u)
      then have "saveAllTemplateImages io (t # ts) s = saveAllTemplateImages io ts s1"
        using i False by (simp add: t saveAll_Cons)
      then show ?thesis using grown_step[OF g1 Cons.IH[of s1]] by simp
    qed
  qed
qed

lemma saveAll_all_exist:
  "\<forall>x \<in> fst ` set ts. path_exists s (cwd s @ [template_file x]) \<Longrightarrow>
     saveAllTemplateImages io ts s = (Inr (), s)"
proof (induction ts)
  case Nil
  then show ?case by (simp add: saveAll_Nil)
next
  case (Cons t ts)
  obtain x img where t: "t = (x, img)" by (cases t)
  show ?case using Cons by (simp add: t saveAll_Cons)
qed

lemma saveAll_success_exist:
  "saveAllTemplateImages io ts s = (Inr u, s') \<Longrightarrow>
     \<forall>x \<in> fst ` set ts. path_exists s' (cwd s @ [template_file x])"
proof (induction ts arbitrary: s)
  case Nil
  then show ?case by simp
next
  case (Cons t ts)
  obtain x img where t: "t = (x, img)" by (cases t)
  let ?p = "cwd s @ [template_file x]"
  show ?case
  proof (cases "path_exists s ?p")
    case True
    then have r: "saveAllTemplateImages io ts s = (Inr u, s')"
      using Cons.prems by (simp add: t saveAll_Cons)
    have g: "grown ts s s'" using saveAll_grown[of ts s io] r by simp
    have "path_exists s' ?p" using g True by (auto simp: grown_def path_exists_def)
    then show ?thesis using Cons.IH[OF r] by (simp add: t)
  next
    case False
    obtain r s1 where i: "imsave io ?p img s = (r, s1)" by (cases "imsave io ?p img s")
    show ?thesis
    proof (cases r)
      case (Inl e)
      then show ?thesis using Cons.prems i False by (simp add: t saveAll_Cons)
    next
      case (Inr v)
      then have r: "saveAllTemplateImages io ts s1 = (Inr u, s')"
        using Cons.prems i False by (simp add: t saveAll_Cons)
      have s1: "cwd s1 = cwd s" "path_exists s1 ?p"
        using imsave_cases(2)[OF i[unfolded Inr]] by (auto simp: path_exists_def)
      have g: "grown ts s1 s'" using saveAll_grown[of ts s1 io] r by simp
      have "path_exists s' ?p" using g s1 by (auto simp: grown_def path_exists_def)
      then show ?thesis using Cons.IH[OF r] s1 by (simp add: t)
    qed
  qed
qed

text \<open>
  Claim C9. \<open>saveAllTemplateImages\<close> calls \<open>imsave\<close> only on template files of the
  working directory that did not exist when it started, and whatever existed keeps its
  content, however the run ends. Consequently, after a run that returned, a second run in
  the same directory returns as well and changes nothing: no file is written.
\<close>

theorem saveAll_idempotent:
  "(\<forall>p. path_exists s p \<longrightarrow>
        entries (snd (saveAllTemplateImages io ts s)) p = entries s p)
   \<and> (\<exists>new. written (snd (saveAllTemplateImages io ts s)) = written s @ new
         \<and> (\<forall>p \<in> set new. \<not> path_exists s p
               \<and> (\<exists>x \<in> fst ` set ts. p = cwd s @ [template_file x])))
   \<and> (\<forall>s'. saveAllTemplateImages io ts s = (Inr (), s') \<longrightarrow>
         saveAllTemplateImages io ts s' = (Inr (), s'))"
proof -
  have g: "grown ts s (snd (saveAllTemplateImages io ts s))" by (rule saveAll_grown)
  have i: "saveAllTemplateImages io ts s' = (Inr (), s')"
    if r: "saveAllTemplateImages io ts s = (Inr (), s')" for s'
  proof -
    have "cwd s' = cwd s" using g r by (simp add: grown_def)
    then show ?thesis using saveAll_success_exist[OF r] by (intro saveAll_all_exist) simp
  qed
  show ?thesis using g i unfolding grown_def by blast
qed


theorem saveAll_idempotent_witness:
  "entries (snd (saveAllTemplateImages (\<lambda>p. None) two_templates half_done_fs))
       [''repo'', ''Templates'', ''im_template_Templates.start.png''] = Some (File 7)
   \<and> written (snd (saveAllTemplateImages (\<lambda>p. None) two_templates half_done_fs))
       = [[''repo'', ''Templates'', ''im_template_Templates.end.png'']]
   \<and> saveAllTemplateImages (\<lambda>p. None) two_templates
         (snd (saveAllTemplateImages (\<lambda>p. None) two_templates half_done_fs))
       = (Inr (), snd (saveAllTemplateImages (\<lambda>p. None) two_templates half_done_fs))"
proof -
  have r: "saveAllTemplateImages (\<lambda>p. None) two_templates half_done_fs
      = (Inr (), half_done_fs\<lparr>
           entries := (entries half_done_fs)
             ([''repo'', ''Templates'', ''im_template_Templates.end.png''] \<mapsto> File 2),
           written := [[''repo'', ''Templates'', ''im_template_Templates.end.png'']]\<rparr>)"
    by (simp add: two_templates_def saveAll_Cons saveAll_Nil half_done_fs_def path_exists_def
        template_file_def imsave_def Let_def)
  show ?thesis
    using saveAll_idempotent [of half_done_fs "\<lambda>p. None" two_templates] r
    by (simp add: half_done_fs_def path_exists_def)
qed

text \<open>
  Claim C5 at the input where the code fails it. Imported while the working directory
  is the directory of the script, \<open>getImageDirectory\<close> gives the empty string,
  \<open>os.chdir('')\<close> raises \<open>FileNotFoundError\<close>, and the import ends there: no image is
  written.
\<close>

theorem import_from_script_directory:
  "import_script (\<lambda>p. None) two_templates script_path (repo_fs [''repo'', ''Templates''])
     = (Inl FileNotFoundError, repo_fs [''repo'', ''Templates''])"
  by (simp add: import_script_def getImageDirectory_def relpath_def script_path_def repo_fs_def
      chdir_rel_def bnd_def get_state_def Let_def)

text \<open>
  Imported from the repository root, the same script writes both images into the
  directory of the script and ends in the directory it started in.
\<close>

lemma import_from_repo_root:
  "import_script (\<lambda>p. None) two_templates script_path (repo_fs [''repo''])
     = (Inr (), (repo_fs [''repo''])\<lparr>
          entries := (entries (repo_fs [''repo'']))
            ([''repo'', ''Templates'', ''im_template_Templates.start.png''] \<mapsto> File 1,
             [''repo'', ''Templates'', ''im_template_Templates.end.png''] \<mapsto> File 2),
          written := [[''repo'', ''Templates'', ''im_template_Templates.start.png''],
                      [''repo'', ''Templates'', ''im_template_Templates.end.png'']]\<rparr>)"
  by (simp add: import_script_def getImageDirectory_def relpath_def script_path_def repo_fs_def
      chdir_rel_def chdir_abs_def saveAllTemplateImages_def two_templates_def imsave_def
      is_dir_def path_exists_def template_file_def
      bnd_def get_state_def ret_def Let_def)

section \<open>Properties of the sliders\<close>

subsection \<open>Rounding to a float\<close>




lemma rnd_zero [simp]: "rnd 0 = Finite 0"
  by (simp add: rnd_def)






















subsection \<open>The ranges\<close>




end
